theory Spec2Isabelle
  imports Main
begin

section \<open>Data model of the graph page\<close>

text \<open>
  The graph page (\<^verbatim>\<open>GraphPage\<close>, a React component) decides on every update of its
  properties whether the graph has to be fetched again, and reconciles the focused node
  of the URL with the one of the application store.

  JavaScript values are modelled as follows. A value of type \<^verbatim>\<open>string | undefined\<close>
  is a \<open>string option\<close> (\<open>None\<close> is \<^verbatim>\<open>undefined\<close>). The numbers of the properties
  (a duration in seconds, times in milliseconds) are integers. An object that is compared
  by reference (\<^verbatim>\<open>===\<close>) lives in a heap and is held through its address.
\<close>

record Namespace =
  name :: "string option"

datatype NodeType = APP | SERVICE | WORKLOAD

record NodeParamsType =
  app :: "string option"
  namespace :: Namespace
  nodeType :: NodeType
  service :: "string option"
  version :: "string option"
  workload :: "string option"

text \<open>\<^verbatim>\<open>Partial<GraphURLPathProps>\<close>: the path variables, each of which may be missing.\<close>

record GraphURLPathProps =
  paramApp :: "string option"
  paramNamespace :: "string option"
  paramService :: "string option"
  paramVersion :: "string option"
  paramWorkload :: "string option"

text \<open>
  Modelled from the spec: the enumeration \<^verbatim>\<open>EdgeLabelMode\<close> is declared in
  \<^verbatim>\<open>types/Graph\<close>. The page names one of its members; the others are kept apart by
  their string values.
\<close>

datatype EdgeLabelMode = RESPONSE_TIME_95TH_PERCENTILE | OtherEdgeLabelMode string

record Layout =
  layoutName :: string

type_synonym ref = nat

text \<open>
  The properties of the page that its life-cycle methods read: the path variables
  (\<^verbatim>\<open>props.match.params\<close>) and the properties mapped from the store. \<open>node\<close> is a
  reference to a node object, or \<^verbatim>\<open>undefined\<close>.
\<close>

record GraphPageProps =
  params :: GraphURLPathProps
  activeNamespaces :: "Namespace list"
  activeTour :: "string option"
  duration :: int
  edgeLabelMode :: EdgeLabelMode
  graphType :: string
  lastRefreshAt :: int
  layout :: Layout
  node :: "ref option"
  replayActive :: bool
  replayQueryTime :: int
  showLegend :: bool
  showSecurity :: bool
  showServiceNodes :: bool
  showUnusedNodes :: bool

text \<open>The argument of \<^verbatim>\<open>graphDataSource.fetchGraphData\<close>.\<close>

record FetchParams =
  fetchNamespaces :: "Namespace list"
  fetchDuration :: int
  fetchGraphType :: string
  injectServiceNodes :: bool
  fetchEdgeLabelMode :: EdgeLabelMode
  fetchShowSecurity :: bool
  fetchShowUnusedNodes :: bool
  fetchNode :: "ref option"
  queryTime :: "int option"

subsection \<open>The heap of node objects\<close>

record heap =
  objects :: "ref \<Rightarrow> NodeParamsType"
  nextRef :: ref

text \<open>An object literal is stored at the next free address.\<close>

definition alloc :: "heap \<Rightarrow> NodeParamsType \<Rightarrow> heap \<times> ref" where
  "alloc h v = (h\<lparr>objects := (objects h)(nextRef h := v), nextRef := Suc (nextRef h)\<rparr>, nextRef h)"

subsection \<open>The effects of the page and the world they act on\<close>

datatype effect =
    SetNode "ref option"
  | GraphChanged
  | FetchGraphData FetchParams
  | UnsetFocusSelector
  | CleanError
  | EndTour

text \<open>
  \<open>graphNode\<close> is \<^verbatim>\<open>store.getState().graph.node\<close>; \<open>trace\<close> lists the calls the page
  has made to its collaborators, oldest first.
\<close>

record world =
  heapOf :: heap
  graphNode :: "ref option"
  trace :: "effect list"

definition emit :: "effect \<Rightarrow> world \<Rightarrow> world" where
  "emit e w = w\<lparr>trace := trace w @ [e]\<rparr>"

text \<open>The fields of the component itself.\<close>

record GraphPage =
  focusSelector :: "string option"

section \<open>Helpers\<close>

text \<open>
  Modelled from the spec: the constant \<^verbatim>\<open>UNKNOWN\<close> of \<^verbatim>\<open>types/Graph\<close>, the
  "unknown" sentinel.
\<close>

definition UNKNOWN :: string where
  "UNKNOWN = ''unknown''"

text \<open>A string or \<^verbatim>\<open>undefined\<close> in a condition: true unless undefined or empty.\<close>

definition truthy :: "string option \<Rightarrow> bool" where
  "truthy s = (case s of None \<Rightarrow> False | Some t \<Rightarrow> t \<noteq> [])"

text \<open>
  Modelled from the spec: \<^verbatim>\<open>arrayEquals\<close> of \<^verbatim>\<open>utils/Common\<close>, which the page calls
  with the active namespaces and a comparator on names. The spec: equality for refresh
  purposes is set-equality by name, not by order or object identity. Each element of one
  array has a partner in the other under the comparator.
\<close>

definition arrayEquals :: "'a list \<Rightarrow> 'a list \<Rightarrow> ('a \<Rightarrow> 'a \<Rightarrow> bool) \<Rightarrow> bool" where
  "arrayEquals a1 a2 comparator =
     (list_all (\<lambda>v1. list_ex (\<lambda>v2. comparator v1 v2) a2) a1 \<and>
      list_all (\<lambda>v2. list_ex (\<lambda>v1. comparator v1 v2) a1) a2)"

text \<open>
  Modelled from the spec: \<^verbatim>\<open>props.setNode\<close> dispatches \<^verbatim>\<open>GraphActions.setNode\<close>,
  whose reducer is elsewhere: it updates the stored node.
\<close>

definition setNode :: "ref option \<Rightarrow> world \<Rightarrow> world" where
  "setNode n w = emit (SetNode n) (w\<lparr>graphNode := n\<rparr>)"

section \<open>The static methods\<close>

text \<open>
  \<^verbatim>\<open>getNodeParamsFromProps\<close> returns \<^verbatim>\<open>undefined\<close> or a new object; the model gives
  the contents of that object, and the caller stores it at a fresh address.
\<close>

definition getNodeParamsFromProps :: "GraphPageProps \<Rightarrow> NodeParamsType option" where
  "getNodeParamsFromProps props =
     (let app' = paramApp (params props);
          appOk = (truthy app' \<and> app' \<noteq> Some UNKNOWN \<and> app' \<noteq> Some ''undefined'');
          namespace' = paramNamespace (params props);
          namespaceOk =
            (truthy namespace' \<and> namespace' \<noteq> Some UNKNOWN \<and> namespace' \<noteq> Some ''undefined'');
          service' = paramService (params props);
          serviceOk = (truthy service' \<and> service' \<noteq> Some UNKNOWN \<and> service' \<noteq> Some ''undefined'');
          workload' = paramWorkload (params props);
          workloadOk =
            (truthy workload' \<and> workload' \<noteq> Some UNKNOWN \<and> workload' \<noteq> Some ''undefined'')
      in if \<not> appOk \<and> \<not> namespaceOk \<and> \<not> serviceOk \<and> \<not> workloadOk then None
         else
           let (nodeType', version') =
                 (if appOk \<or> workloadOk
                  then (if appOk then APP else WORKLOAD, paramVersion (params props))
                  else (SERVICE, Some ''''))
           in Some \<lparr>app = app', namespace = \<lparr>name = namespace'\<rparr>, nodeType = nodeType',
                     service = service', version = version', workload = workload'\<rparr>)"

definition isNodeChanged :: "heap \<Rightarrow> ref option \<Rightarrow> ref option \<Rightarrow> bool" where
  "isNodeChanged h prevNode node' =
     (if prevNode = node' then False
      else case (prevNode, node') of
        (Some p, None) \<Rightarrow> True
      | (None, Some n) \<Rightarrow> True
      | (Some p, Some n) \<Rightarrow>
          (let nodeAppHasChanged = (app (objects h p) \<noteq> app (objects h n));
               nodeServiceHasChanged = (service (objects h p) \<noteq> service (objects h n));
               nodeVersionHasChanged = (version (objects h p) \<noteq> version (objects h n));
               nodeTypeHasChanged = (nodeType (objects h p) \<noteq> nodeType (objects h n));
               nodeWorkloadHasChanged = (workload (objects h p) \<noteq> workload (objects h n))
           in nodeAppHasChanged \<or> nodeServiceHasChanged \<or> nodeVersionHasChanged \<or>
              nodeWorkloadHasChanged \<or> nodeTypeHasChanged)
      | (None, None) \<Rightarrow> False)"

section \<open>Fetching\<close>

definition loadGraphDataFromBackend :: "heap \<Rightarrow> GraphPageProps \<Rightarrow> FetchParams" where
  "loadGraphDataFromBackend h props =
     (let queryTime' = (if replayQueryTime props \<noteq> 0 then Some (replayQueryTime props) else None)
      in \<lparr>fetchNamespaces =
            (case node props of Some r \<Rightarrow> [namespace (objects h r)] | None \<Rightarrow> activeNamespaces props),
          fetchDuration = duration props,
          fetchGraphType = graphType props,
          injectServiceNodes = showServiceNodes props,
          fetchEdgeLabelMode = edgeLabelMode props,
          fetchShowSecurity = showSecurity props,
          fetchShowUnusedNodes = showUnusedNodes props,
          fetchNode = node props,
          queryTime = queryTime'\<rparr>)"

definition fetchGraphData :: "GraphPageProps \<Rightarrow> world \<Rightarrow> world" where
  "fetchGraphData props w = emit (FetchGraphData (loadGraphDataFromBackend (heapOf w) props)) w"

section \<open>Life cycle\<close>

text \<open>The result of \<^verbatim>\<open>getNodeParamsFromProps\<close> as a value: a new object, or \<^verbatim>\<open>undefined\<close>.\<close>

definition newNode :: "NodeParamsType option \<Rightarrow> heap \<Rightarrow> heap \<times> ref option" where
  "newNode v h = (case v of None \<Rightarrow> (h, None) | Some obj \<Rightarrow> (let (h', r) = alloc h obj in (h', Some r)))"

text \<open>
  The constructor: \<open>fs\<close> is what \<^verbatim>\<open>getFocusSelector()\<close> returns. The node of the URL
  overrides the stored one. The properties of the page stay as they are until after the
  first render.
\<close>

definition constructor :: "GraphPageProps \<Rightarrow> string option \<Rightarrow> world \<Rightarrow> GraphPage \<times> world" where
  "constructor props fs w =
     (let (h', urlNode) = newNode (getNodeParamsFromProps props) (heapOf w);
          w' = w\<lparr>heapOf := h'\<rparr>
      in (\<lparr>focusSelector = fs\<rparr>,
          if isNodeChanged h' urlNode (node props) then setNode urlNode w' else w'))"

text \<open>
  On mount the page reads the store, not its properties, and fetches when no node is
  stored. (It also subscribes to the events of the data source, which only redraw.)
\<close>

definition componentDidMount :: "GraphPageProps \<Rightarrow> world \<Rightarrow> world" where
  "componentDidMount props w = (if graphNode w = None then fetchGraphData props w else w)"

definition activeNamespacesChanged :: "GraphPageProps \<Rightarrow> GraphPageProps \<Rightarrow> bool" where
  "activeNamespacesChanged prev cur =
     (\<not> arrayEquals (activeNamespaces prev) (activeNamespaces cur) (\<lambda>n1 n2. name n1 = name n2))"

text \<open>The condition under which \<^verbatim>\<open>componentDidUpdate\<close> fetches the graph.\<close>

definition shouldRefetch :: "heap \<Rightarrow> GraphPageProps \<Rightarrow> GraphPageProps \<Rightarrow> bool" where
  "shouldRefetch h prev cur =
     (activeNamespacesChanged prev cur \<or>
      duration prev \<noteq> duration cur \<or>
      (edgeLabelMode prev \<noteq> edgeLabelMode cur \<and>
         edgeLabelMode cur = RESPONSE_TIME_95TH_PERCENTILE) \<or>
      graphType prev \<noteq> graphType cur \<or>
      (lastRefreshAt prev \<noteq> lastRefreshAt cur \<and> replayQueryTime cur = 0) \<or>
      replayQueryTime prev \<noteq> replayQueryTime cur \<or>
      showServiceNodes prev \<noteq> showServiceNodes cur \<or>
      showSecurity prev \<noteq> showSecurity cur \<or>
      showUnusedNodes prev \<noteq> showUnusedNodes cur \<or>
      isNodeChanged h (node prev) (node cur))"

definition componentDidUpdate ::
  "GraphPage \<Rightarrow> GraphPageProps \<Rightarrow> GraphPageProps \<Rightarrow> world \<Rightarrow> GraphPage \<times> world" where
  "componentDidUpdate this prev cur w =
     (let w1 = (if activeNamespacesChanged prev cur then emit GraphChanged w else w);
          w2 = (if shouldRefetch (heapOf w1) prev cur then fetchGraphData cur w1 else w1);
          (this', w3) =
            (if truthy (focusSelector this)
             then (this\<lparr>focusSelector := None\<rparr>, emit UnsetFocusSelector w2)
             else (this, w2));
          w4 = (if layoutName (layout prev) \<noteq> layoutName (layout cur) \<or>
                   activeNamespacesChanged prev cur
                then emit CleanError w3 else w3);
          w5 = (if showLegend cur \<and> activeTour cur \<noteq> None then emit EndTour w4 else w4)
      in (this', w5))"

section \<open>Notions of the specification\<close>

text \<open>
  The spec's rule for a raw field: it counts as present iff it is non-empty, not the
  "unknown" sentinel and not the literal string "undefined".
\<close>

definition fieldPresent :: "string option \<Rightarrow> bool" where
  "fieldPresent f = (case f of None \<Rightarrow> False | Some s \<Rightarrow> s \<noteq> [] \<and> s \<noteq> ''unknown'' \<and> s \<noteq> ''undefined'')"

text \<open>
  An identical copy of a snapshot: every fetch-relevant field has the same value, the
  namespaces carry the same names in the same order, and the focused nodes are both
  absent or are objects with the same contents (possibly at two addresses).
\<close>

definition identicalCopy :: "heap \<Rightarrow> GraphPageProps \<Rightarrow> GraphPageProps \<Rightarrow> bool" where
  "identicalCopy h p q =
     (map name (activeNamespaces p) = map name (activeNamespaces q) \<and>
      duration p = duration q \<and>
      edgeLabelMode p = edgeLabelMode q \<and>
      graphType p = graphType q \<and>
      lastRefreshAt p = lastRefreshAt q \<and>
      replayQueryTime p = replayQueryTime q \<and>
      showServiceNodes p = showServiceNodes q \<and>
      showSecurity p = showSecurity q \<and>
      showUnusedNodes p = showUnusedNodes q \<and>
      (case (node p, node q) of
         (None, None) \<Rightarrow> True
       | (Some a, Some b) \<Rightarrow> objects h a = objects h b
       | _ \<Rightarrow> False))"

text \<open>The fetch requests of a trace, oldest first.\<close>

fun fetchesOf :: "effect list \<Rightarrow> FetchParams list" where
  "fetchesOf [] = []"
| "fetchesOf (FetchGraphData r # es) = r # fetchesOf es"
| "fetchesOf (e # es) = fetchesOf es"

text \<open>
  The invariant the spec gives for a focused node, as the claim reads it: a node is
  populated per its kind when the field that names it is present.
\<close>

definition populated :: "NodeParamsType \<Rightarrow> bool" where
  "populated n =
     (case nodeType n of
        APP \<Rightarrow> fieldPresent (app n)
      | WORKLOAD \<Rightarrow> fieldPresent (workload n)
      | SERVICE \<Rightarrow> fieldPresent (service n))"

section \<open>Example values\<close>

definition noParams :: GraphURLPathProps where
  "noParams = \<lparr>paramApp = None, paramNamespace = None, paramService = None,
                paramVersion = None, paramWorkload = None\<rparr>"

definition reviewsParams :: GraphURLPathProps where
  "reviewsParams = \<lparr>paramApp = None, paramNamespace = Some ''bookinfo'', paramService = None,
                     paramVersion = None, paramWorkload = Some ''reviews''\<rparr>"

definition reviewsNode :: NodeParamsType where
  "reviewsNode = \<lparr>app = None, namespace = \<lparr>name = Some ''bookinfo''\<rparr>, nodeType = WORKLOAD,
                   service = None, version = None, workload = Some ''reviews''\<rparr>"

definition bookinfoProps :: GraphPageProps where
  "bookinfoProps =
     \<lparr>params = noParams, activeNamespaces = [\<lparr>name = Some ''bookinfo''\<rparr>], activeTour = None,
      duration = 60, edgeLabelMode = OtherEdgeLabelMode ''requestsPerSecond'',
      graphType = ''versionedApp'', lastRefreshAt = 1000, layout = \<lparr>layoutName = ''dagre''\<rparr>,
      node = None, replayActive = False, replayQueryTime = 0, showLegend = False,
      showSecurity = False, showServiceNodes = True, showUnusedNodes = False\<rparr>"

definition emptyHeap :: heap where
  "emptyHeap = \<lparr>objects = (\<lambda>r. reviewsNode), nextRef = 0\<rparr>"

definition threeNodesHeap :: heap where
  "threeNodesHeap =
     \<lparr>objects = (\<lambda>r. if r = 1 then reviewsNode\<lparr>namespace := \<lparr>name = Some ''default''\<rparr>\<rparr>
                      else reviewsNode),
      nextRef = 3\<rparr>"

definition unknownAppParams :: GraphURLPathProps where
  "unknownAppParams = \<lparr>paramApp = Some ''unknown'', paramNamespace = Some ''bookinfo'',
                        paramService = None, paramVersion = None, paramWorkload = None\<rparr>"

definition staleWorld :: world where
  "staleWorld = \<lparr>heapOf = \<lparr>objects = (\<lambda>r. reviewsNode), nextRef = 1\<rparr>,
                  graphNode = Some 0, trace = []\<rparr>"

definition freshWorld :: world where
  "freshWorld = \<lparr>heapOf = emptyHeap, graphNode = None, trace = []\<rparr>"

definition focusProps :: GraphPageProps where
  "focusProps = bookinfoProps\<lparr>params := reviewsParams\<rparr>"

definition staleProps :: GraphPageProps where
  "staleProps = bookinfoProps\<lparr>node := Some 0\<rparr>"

definition focusedHeap :: heap where
  "focusedHeap = \<lparr>objects = (\<lambda>r. reviewsNode), nextRef = 1\<rparr>"

section \<open>Auxiliary facts\<close>

lemma names_included:
  "(\<forall>v1\<in>set xs. \<exists>v2\<in>set ys. name v1 = name v2) = (name ` set xs \<subseteq> name ` set ys)"
  using image_iff by fastforce

lemma names_covered:
  "(\<forall>v2\<in>set ys. \<exists>v1\<in>set xs. name v1 = name v2) = (name ` set ys \<subseteq> name ` set xs)"
  using image_iff by fastforce

lemma arrayEquals_names:
  "arrayEquals xs ys (\<lambda>n1 n2. name n1 = name n2) = (name ` set xs = name ` set ys)"
  unfolding arrayEquals_def list_all_iff list_ex_iff names_included names_covered
  by auto

lemma activeNamespacesChanged_iff:
  "activeNamespacesChanged prev cur =
     (name ` set (activeNamespaces prev) \<noteq> name ` set (activeNamespaces cur))"
  by (simp add: activeNamespacesChanged_def arrayEquals_names)
lemma fieldPresent_ok:
  "(truthy f \<and> f \<noteq> Some UNKNOWN \<and> f \<noteq> Some ''undefined'') = fieldPresent f"
  by (cases f) (auto simp: truthy_def UNKNOWN_def fieldPresent_def)
lemma fetchesOf_snoc:
  "fetchesOf (es @ [e]) = fetchesOf es @ (case e of FetchGraphData r \<Rightarrow> [r] | _ \<Rightarrow> [])"
  by (induction es rule: fetchesOf.induct) (auto split: effect.splits)

lemma fetchesOf_emit:
  "fetchesOf (trace (emit e w)) = fetchesOf (trace w) @ (case e of FetchGraphData r \<Rightarrow> [r] | _ \<Rightarrow> [])"
  by (simp add: emit_def fetchesOf_snoc)

lemma heapOf_emit: "heapOf (emit e w) = heapOf w"
  by (simp add: emit_def)

lemma componentDidUpdate_fetches:
  "fetchesOf (trace (snd (componentDidUpdate this prev cur w))) =
     fetchesOf (trace w) @
     (if shouldRefetch (heapOf w) prev cur then [loadGraphDataFromBackend (heapOf w) cur] else [])"
  by (simp add: componentDidUpdate_def Let_def fetchGraphData_def fetchesOf_emit heapOf_emit
      split: prod.splits)

lemma shouldRefetch_iff:
  "shouldRefetch h prev cur =
     (name ` set (activeNamespaces prev) \<noteq> name ` set (activeNamespaces cur) \<or>
      duration prev \<noteq> duration cur \<or>
      (edgeLabelMode prev \<noteq> edgeLabelMode cur \<and>
         edgeLabelMode cur = RESPONSE_TIME_95TH_PERCENTILE) \<or>
      graphType prev \<noteq> graphType cur \<or>
      (lastRefreshAt prev \<noteq> lastRefreshAt cur \<and> replayQueryTime cur = 0) \<or>
      replayQueryTime prev \<noteq> replayQueryTime cur \<or>
      showServiceNodes prev \<noteq> showServiceNodes cur \<or>
      showSecurity prev \<noteq> showSecurity cur \<or>
      showUnusedNodes prev \<noteq> showUnusedNodes cur \<or>
      isNodeChanged h (node prev) (node cur))"
  by (simp add: shouldRefetch_def activeNamespacesChanged_iff)

lemma identicalCopy_node:
  "identicalCopy h p q \<Longrightarrow> \<not> isNodeChanged h (node p) (node q)"
  by (cases "node p"; cases "node q")
     (auto simp: identicalCopy_def isNodeChanged_def Let_def)

lemma identicalCopy_names:
  "identicalCopy h p q \<Longrightarrow> name ` set (activeNamespaces p) = name ` set (activeNamespaces q)"
proof -
  assume "identicalCopy h p q"
  then have "map name (activeNamespaces p) = map name (activeNamespaces q)"
    by (simp add: identicalCopy_def)
  then have "set (map name (activeNamespaces p)) = set (map name (activeNamespaces q))"
    by simp
  then show ?thesis by simp
qed

lemma isNodeChanged_sym: "isNodeChanged h a b = isNodeChanged h b a"
  by (cases a; cases b) (auto simp: isNodeChanged_def Let_def)

lemma fetchesOf_setNode: "fetchesOf (trace (setNode n w)) = fetchesOf (trace w)"
  by (simp add: setNode_def fetchesOf_emit)

lemma graphNode_emit: "graphNode (emit e w) = graphNode w"
  by (simp add: emit_def)

lemma constructor_world:
  "newNode (getNodeParamsFromProps props) (heapOf w) = (h', urlNode) \<Longrightarrow>
     snd (constructor props fs w) =
       (if isNodeChanged h' urlNode (node props) then setNode urlNode (w\<lparr>heapOf := h'\<rparr>)
        else w\<lparr>heapOf := h'\<rparr>)"
  by (simp add: constructor_def Let_def)

lemma heapOf_setNode: "heapOf (setNode n w) = heapOf w"
  by (simp add: setNode_def heapOf_emit)

lemma graphNode_setNode: "graphNode (setNode n w) = n"
  by (simp add: setNode_def graphNode_emit)

lemma newNode_None:
  "newNode v h = (h', urlNode) \<Longrightarrow> (urlNode = None) = (v = None)"
  by (cases v) (auto simp: newNode_def alloc_def)

lemma componentDidMount_fetches:
  "fetchesOf (trace (componentDidMount props w)) =
     fetchesOf (trace w) @
     (if graphNode w = None then [loadGraphDataFromBackend (heapOf w) props] else [])"
  by (simp add: componentDidMount_def fetchGraphData_def fetchesOf_emit)

lemma newNode_focus:
  "newNode (getNodeParamsFromProps focusProps) (heapOf freshWorld) =
     (\<lparr>objects = (\<lambda>r. reviewsNode), nextRef = 1\<rparr>, Some 0)"
  by (simp add: getNodeParamsFromProps_def truthy_def UNKNOWN_def focusProps_def bookinfoProps_def
      reviewsParams_def newNode_def alloc_def freshWorld_def emptyHeap_def reviewsNode_def fun_eq_iff)

lemma constructor_focus:
  "snd (constructor focusProps None freshWorld) =
     \<lparr>heapOf = focusedHeap, graphNode = Some 0, trace = [SetNode (Some 0)]\<rparr>"
proof -
  have c: "isNodeChanged \<lparr>objects = (\<lambda>r. reviewsNode), nextRef = 1\<rparr> (Some 0) (node focusProps)"
    by (simp add: isNodeChanged_def focusProps_def bookinfoProps_def)
  show ?thesis
    using c constructor_world [OF newNode_focus, of None]
    by (simp add: setNode_def emit_def freshWorld_def focusedHeap_def)
qed

lemma focus_scenario:
  "shouldRefetch focusedHeap focusProps (focusProps\<lparr>node := Some 0\<rparr>) \<and>
   fetchesOf (trace (snd (componentDidUpdate \<lparr>focusSelector = None\<rparr> focusProps
      (focusProps\<lparr>node := Some 0\<rparr>) (snd (constructor focusProps None freshWorld))))) =
     [loadGraphDataFromBackend focusedHeap (focusProps\<lparr>node := Some 0\<rparr>)] \<and>
   fetchNamespaces (loadGraphDataFromBackend focusedHeap (focusProps\<lparr>node := Some 0\<rparr>)) =
     [\<lparr>name = Some ''bookinfo''\<rparr>] \<and>
   fetchNode (loadGraphDataFromBackend focusedHeap (focusProps\<lparr>node := Some 0\<rparr>)) = Some 0 \<and>
   nodeType (objects focusedHeap 0) = WORKLOAD \<and>
   workload (objects focusedHeap 0) = Some ''reviews''"
proof -
  have r: "shouldRefetch focusedHeap focusProps (focusProps\<lparr>node := Some 0\<rparr>)"
    by (simp add: shouldRefetch_iff isNodeChanged_def focusProps_def bookinfoProps_def)
  have f: "fetchesOf (trace (snd (componentDidUpdate \<lparr>focusSelector = None\<rparr> focusProps
      (focusProps\<lparr>node := Some 0\<rparr>) (snd (constructor focusProps None freshWorld))))) =
     [loadGraphDataFromBackend focusedHeap (focusProps\<lparr>node := Some 0\<rparr>)]"
    using r by (simp add: componentDidUpdate_fetches constructor_focus)
  have n: "fetchNamespaces (loadGraphDataFromBackend focusedHeap (focusProps\<lparr>node := Some 0\<rparr>)) =
     [\<lparr>name = Some ''bookinfo''\<rparr>]"
    by (simp add: loadGraphDataFromBackend_def focusedHeap_def reviewsNode_def)
  have k: "fetchNode (loadGraphDataFromBackend focusedHeap (focusProps\<lparr>node := Some 0\<rparr>)) = Some 0"
    by (simp add: loadGraphDataFromBackend_def)
  have o: "nodeType (objects focusedHeap 0) = WORKLOAD \<and>
           workload (objects focusedHeap 0) = Some ''reviews''"
    by (simp add: focusedHeap_def reviewsNode_def)
  from r f n k o show ?thesis by blast
qed

section \<open>The refetch decision\<close>

text \<open>
  C1. The page fetches on an update exactly when one of ten triggers holds: the set of
  names of the active namespaces changed, the duration changed, the edge label mode
  changed to the 95th percentile of the response time, the graph type changed, the last
  refresh time changed while the replay query time of the current snapshot is 0, the
  replay query time changed, one of the three toolbar flags changed, or the focused node
  changed according to \<open>isNodeChanged\<close>. A snapshot compared with an identical copy, or
  with itself, triggers no fetch, and then the update submits no fetch request.
\<close>

theorem shouldRefetch_triggers:
  "shouldRefetch h prev cur =
     (name ` set (activeNamespaces prev) \<noteq> name ` set (activeNamespaces cur) \<or>
      duration prev \<noteq> duration cur \<or>
      (edgeLabelMode prev \<noteq> edgeLabelMode cur \<and>
         edgeLabelMode cur = RESPONSE_TIME_95TH_PERCENTILE) \<or>
      graphType prev \<noteq> graphType cur \<or>
      (lastRefreshAt prev \<noteq> lastRefreshAt cur \<and> replayQueryTime cur = 0) \<or>
      replayQueryTime prev \<noteq> replayQueryTime cur \<or>
      showServiceNodes prev \<noteq> showServiceNodes cur \<or>
      showSecurity prev \<noteq> showSecurity cur \<or>
      showUnusedNodes prev \<noteq> showUnusedNodes cur \<or>
      isNodeChanged h (node prev) (node cur)) \<and>
   (identicalCopy h prev cur \<longrightarrow> \<not> shouldRefetch h prev cur) \<and>
   \<not> shouldRefetch h prev prev \<and>
   (\<not> shouldRefetch (heapOf w) prev cur \<longrightarrow>
      fetchesOf (trace (snd (componentDidUpdate this prev cur w))) = fetchesOf (trace w))"
proof (intro conjI impI)
  show "\<not> shouldRefetch h prev prev"
    by (simp add: shouldRefetch_iff isNodeChanged_def)
next
  assume c: "identicalCopy h prev cur"
  show "\<not> shouldRefetch h prev cur"
    using identicalCopy_node [OF c] identicalCopy_names [OF c] c
    by (simp add: shouldRefetch_iff identicalCopy_def)
next
  assume "\<not> shouldRefetch (heapOf w) prev cur"
  then show "fetchesOf (trace (snd (componentDidUpdate this prev cur w))) = fetchesOf (trace w)"
    by (simp add: componentDidUpdate_fetches)
qed (rule shouldRefetch_iff)

theorem shouldRefetch_triggers_witness:
  "identicalCopy threeNodesHeap (bookinfoProps\<lparr>node := Some 0\<rparr>) (bookinfoProps\<lparr>node := Some 2\<rparr>) \<and>
   \<not> shouldRefetch threeNodesHeap (bookinfoProps\<lparr>node := Some 0\<rparr>) (bookinfoProps\<lparr>node := Some 2\<rparr>) \<and>
   fetchesOf (trace (snd (componentDidUpdate \<lparr>focusSelector = None\<rparr>
       (bookinfoProps\<lparr>node := Some 0\<rparr>) (bookinfoProps\<lparr>node := Some 2\<rparr>)
       \<lparr>heapOf = threeNodesHeap, graphNode = Some 2, trace = []\<rparr>))) = [] \<and>
   shouldRefetch threeNodesHeap bookinfoProps (bookinfoProps\<lparr>duration := 120\<rparr>)"
proof -
  let ?p = "bookinfoProps\<lparr>node := Some 0\<rparr>" and ?q = "bookinfoProps\<lparr>node := Some 2\<rparr>"
  let ?w = "\<lparr>heapOf = threeNodesHeap, graphNode = Some 2, trace = []\<rparr>"
  have c: "identicalCopy threeNodesHeap ?p ?q"
    by (simp add: identicalCopy_def threeNodesHeap_def bookinfoProps_def)
  have d: "shouldRefetch threeNodesHeap bookinfoProps (bookinfoProps\<lparr>duration := 120\<rparr>)"
    using shouldRefetch_triggers [of threeNodesHeap bookinfoProps "bookinfoProps\<lparr>duration := 120\<rparr>"]
    by (simp add: bookinfoProps_def)
  note t = shouldRefetch_triggers [of threeNodesHeap ?p ?q ?w "\<lparr>focusSelector = None\<rparr>"]
  from t c have n: "\<not> shouldRefetch threeNodesHeap ?p ?q" by blast
  from t n have f: "fetchesOf (trace (snd (componentDidUpdate \<lparr>focusSelector = None\<rparr> ?p ?q ?w))) = []"
    by simp
  from c n f d show ?thesis by blast
qed

text \<open>
  C2. The change of the active namespaces is detected on the set of their names: when the
  new list carries the same names as the old one, in any order, and nothing else differs,
  no fetch is triggered. The example is the change from a, b to b, a.
\<close>

theorem namespaces_reordered:
  "name ` set ns = name ` set (activeNamespaces prev) \<Longrightarrow>
     \<not> shouldRefetch h prev (prev\<lparr>activeNamespaces := ns\<rparr>) \<and>
     \<not> activeNamespacesChanged prev (prev\<lparr>activeNamespaces := ns\<rparr>)"
  by (simp add: shouldRefetch_iff activeNamespacesChanged_iff isNodeChanged_def)

theorem namespaces_reordered_witness:
  "\<not> shouldRefetch emptyHeap
       (bookinfoProps\<lparr>activeNamespaces := [\<lparr>name = Some ''a''\<rparr>, \<lparr>name = Some ''b''\<rparr>]\<rparr>)
       (bookinfoProps\<lparr>activeNamespaces := [\<lparr>name = Some ''b''\<rparr>, \<lparr>name = Some ''a''\<rparr>]\<rparr>)"
  using namespaces_reordered [of "[\<lparr>name = Some ''b''\<rparr>, \<lparr>name = Some ''a''\<rparr>]"
      "bookinfoProps\<lparr>activeNamespaces := [\<lparr>name = Some ''a''\<rparr>, \<lparr>name = Some ''b''\<rparr>]\<rparr>" emptyHeap]
  by (simp add: insert_commute)

text \<open>
  C3. When two snapshots differ only in the edge label mode, the page fetches iff the new
  mode is the 95th percentile of the response time: leaving that mode, or moving between
  two other modes, triggers nothing.
\<close>

theorem edgeLabelMode_only:
  "m \<noteq> edgeLabelMode prev \<Longrightarrow>
     shouldRefetch h prev (prev\<lparr>edgeLabelMode := m\<rparr>) = (m = RESPONSE_TIME_95TH_PERCENTILE)"
  by (auto simp: shouldRefetch_iff isNodeChanged_def)

theorem edgeLabelMode_only_witness:
  "shouldRefetch emptyHeap bookinfoProps
     (bookinfoProps\<lparr>edgeLabelMode := RESPONSE_TIME_95TH_PERCENTILE\<rparr>) \<and>
   \<not> shouldRefetch emptyHeap bookinfoProps
     (bookinfoProps\<lparr>edgeLabelMode := OtherEdgeLabelMode ''noEdgeLabels''\<rparr>) \<and>
   \<not> shouldRefetch emptyHeap (bookinfoProps\<lparr>edgeLabelMode := RESPONSE_TIME_95TH_PERCENTILE\<rparr>)
     ((bookinfoProps\<lparr>edgeLabelMode := RESPONSE_TIME_95TH_PERCENTILE\<rparr>)
        \<lparr>edgeLabelMode := OtherEdgeLabelMode ''noEdgeLabels''\<rparr>)"
  using edgeLabelMode_only [of RESPONSE_TIME_95TH_PERCENTILE bookinfoProps emptyHeap]
    edgeLabelMode_only [of "OtherEdgeLabelMode ''noEdgeLabels''" bookinfoProps emptyHeap]
    edgeLabelMode_only [of "OtherEdgeLabelMode ''noEdgeLabels''"
      "bookinfoProps\<lparr>edgeLabelMode := RESPONSE_TIME_95TH_PERCENTILE\<rparr>" emptyHeap]
  by (simp add: bookinfoProps_def)

text \<open>
  C4. When two snapshots differ only in the last refresh time, the page fetches iff the
  replay query time of the current snapshot is 0: refresh ticks are ignored during a
  replay.
\<close>

theorem lastRefreshAt_only:
  "t \<noteq> lastRefreshAt prev \<Longrightarrow>
     shouldRefetch h prev (prev\<lparr>lastRefreshAt := t\<rparr>) =
       (replayQueryTime (prev\<lparr>lastRefreshAt := t\<rparr>) = 0)"
  by (auto simp: shouldRefetch_iff isNodeChanged_def)

theorem lastRefreshAt_only_witness:
  "shouldRefetch emptyHeap bookinfoProps (bookinfoProps\<lparr>lastRefreshAt := 2000\<rparr>) \<and>
   \<not> shouldRefetch emptyHeap (bookinfoProps\<lparr>replayQueryTime := 5000\<rparr>)
     (bookinfoProps\<lparr>replayQueryTime := 5000, lastRefreshAt := 2000\<rparr>)"
  using lastRefreshAt_only [of 2000 bookinfoProps emptyHeap]
    lastRefreshAt_only [of 2000 "bookinfoProps\<lparr>replayQueryTime := 5000\<rparr>" emptyHeap]
  by (simp add: bookinfoProps_def)

section \<open>The focused node\<close>

text \<open>
  C6. A raw field is present iff it is non-empty, not the "unknown" sentinel and not the
  string "undefined". The derived node is absent exactly when none of app, namespace,
  service and workload is present. Otherwise, when app or workload is present, the node
  type is APP if app is present and WORKLOAD if not, and the version is the one of the
  input; in the remaining case the node type is SERVICE and the version is the empty
  string.
\<close>

theorem getNodeParamsFromProps_rule:
  "getNodeParamsFromProps props =
     (if \<not> fieldPresent (paramApp (params props)) \<and>
         \<not> fieldPresent (paramNamespace (params props)) \<and>
         \<not> fieldPresent (paramService (params props)) \<and>
         \<not> fieldPresent (paramWorkload (params props))
      then None
      else if fieldPresent (paramApp (params props)) \<or> fieldPresent (paramWorkload (params props))
      then Some \<lparr>app = paramApp (params props),
                 namespace = \<lparr>name = paramNamespace (params props)\<rparr>,
                 nodeType = (if fieldPresent (paramApp (params props)) then APP else WORKLOAD),
                 service = paramService (params props),
                 version = paramVersion (params props),
                 workload = paramWorkload (params props)\<rparr>
      else Some \<lparr>app = paramApp (params props),
                 namespace = \<lparr>name = paramNamespace (params props)\<rparr>,
                 nodeType = SERVICE,
                 service = paramService (params props),
                 version = Some '''',
                 workload = paramWorkload (params props)\<rparr>)"
  unfolding getNodeParamsFromProps_def Let_def fieldPresent_ok
  by simp

theorem getNodeParamsFromProps_rule_witness:
  "getNodeParamsFromProps (bookinfoProps\<lparr>params := reviewsParams\<rparr>) = Some reviewsNode \<and>
   getNodeParamsFromProps bookinfoProps = None \<and>
   getNodeParamsFromProps (bookinfoProps\<lparr>params := unknownAppParams\<rparr>) =
     Some \<lparr>app = Some ''unknown'', namespace = \<lparr>name = Some ''bookinfo''\<rparr>, nodeType = SERVICE,
           service = None, version = Some '''', workload = None\<rparr>"
  using getNodeParamsFromProps_rule [of "bookinfoProps\<lparr>params := reviewsParams\<rparr>"]
    getNodeParamsFromProps_rule [of bookinfoProps]
    getNodeParamsFromProps_rule [of "bookinfoProps\<lparr>params := unknownAppParams\<rparr>"]
  by (simp add: bookinfoProps_def reviewsParams_def noParams_def unknownAppParams_def
      reviewsNode_def fieldPresent_def)

text \<open>
  C5. \<open>isNodeChanged\<close> answers: no for the same reference; yes when exactly one of the two
  nodes is absent; no when both are absent; and for two present nodes, yes iff they differ
  in the app, the service, the version, the node type or the workload. Two objects with
  the same contents at two addresses are therefore not a change.
\<close>

theorem isNodeChanged_exact:
  "isNodeChanged h r r = False \<and>
   isNodeChanged h (Some p) None = True \<and>
   isNodeChanged h None (Some n) = True \<and>
   isNodeChanged h None None = False \<and>
   isNodeChanged h (Some p) (Some n) =
     (app (objects h p) \<noteq> app (objects h n) \<or>
      service (objects h p) \<noteq> service (objects h n) \<or>
      version (objects h p) \<noteq> version (objects h n) \<or>
      nodeType (objects h p) \<noteq> nodeType (objects h n) \<or>
      workload (objects h p) \<noteq> workload (objects h n)) \<and>
   (p \<noteq> n \<and> objects h p = objects h n \<longrightarrow> isNodeChanged h (Some p) (Some n) = False)"
  by (auto simp: isNodeChanged_def Let_def)

theorem isNodeChanged_exact_witness:
  "(0::nat) \<noteq> 2 \<and> objects threeNodesHeap 0 = objects threeNodesHeap 2 \<and>
   isNodeChanged threeNodesHeap (Some 0) (Some 2) = False \<and>
   isNodeChanged threeNodesHeap (Some 0) (Some 0) = False \<and>
   isNodeChanged threeNodesHeap (Some 0) None = True \<and>
   isNodeChanged threeNodesHeap None (Some 2) = True"
proof -
  have e: "objects threeNodesHeap 0 = objects threeNodesHeap 2"
    by (simp add: threeNodesHeap_def)
  note t = isNodeChanged_exact [of threeNodesHeap "Some 0" 0 2]
  from t e have "isNodeChanged threeNodesHeap (Some 0) (Some 2) = False" by simp
  with t e show ?thesis by simp
qed

text \<open>
  C10. \<open>isNodeChanged\<close> does not look at the namespace: two present nodes that agree on
  the app, the service, the version, the node type and the workload are not a change,
  whatever their namespaces, and a snapshot pair that differs in nothing but such a node
  triggers no fetch.
\<close>

theorem isNodeChanged_ignores_namespace:
  assumes "app (objects h p) = app (objects h n)"
    and "service (objects h p) = service (objects h n)"
    and "version (objects h p) = version (objects h n)"
    and "nodeType (objects h p) = nodeType (objects h n)"
    and "workload (objects h p) = workload (objects h n)"
  shows "isNodeChanged h (Some p) (Some n) = False \<and>
         shouldRefetch h (prev\<lparr>node := Some p\<rparr>) (prev\<lparr>node := Some n\<rparr>) = False"
  using assms by (simp add: shouldRefetch_iff) (simp add: isNodeChanged_def)

theorem isNodeChanged_ignores_namespace_witness:
  "name (namespace (objects threeNodesHeap 0)) \<noteq> name (namespace (objects threeNodesHeap 1)) \<and>
   isNodeChanged threeNodesHeap (Some 0) (Some 1) = False \<and>
   shouldRefetch threeNodesHeap (bookinfoProps\<lparr>node := Some 0\<rparr>) (bookinfoProps\<lparr>node := Some 1\<rparr>) = False"
proof -
  have a: "app (objects threeNodesHeap 0) = app (objects threeNodesHeap 1)"
    and s: "service (objects threeNodesHeap 0) = service (objects threeNodesHeap 1)"
    and v: "version (objects threeNodesHeap 0) = version (objects threeNodesHeap 1)"
    and t: "nodeType (objects threeNodesHeap 0) = nodeType (objects threeNodesHeap 1)"
    and w: "workload (objects threeNodesHeap 0) = workload (objects threeNodesHeap 1)"
    and m: "name (namespace (objects threeNodesHeap 0)) \<noteq> name (namespace (objects threeNodesHeap 1))"
    by (simp_all add: threeNodesHeap_def reviewsNode_def)
  from m isNodeChanged_ignores_namespace [OF a s v t w, of bookinfoProps]
  show ?thesis by simp
qed

text \<open>
  C8, as amended. Every node that \<open>getNodeParamsFromProps\<close> derives is populated per its
  kind in this sense: an APP node carries a present app, a WORKLOAD node a present
  workload, and a SERVICE node a present service or, failing that, a present namespace.
\<close>

theorem getNodeParamsFromProps_populated:
  "getNodeParamsFromProps props = Some n \<Longrightarrow>
     (case nodeType n of
        APP \<Rightarrow> fieldPresent (app n)
      | WORKLOAD \<Rightarrow> fieldPresent (workload n)
      | SERVICE \<Rightarrow> fieldPresent (service n) \<or> fieldPresent (name (namespace n)))"
  unfolding getNodeParamsFromProps_def Let_def fieldPresent_ok
  by (auto split: if_splits)

theorem getNodeParamsFromProps_populated_witness:
  "getNodeParamsFromProps (bookinfoProps\<lparr>params := reviewsParams\<rparr>) = Some reviewsNode \<and>
   nodeType reviewsNode = WORKLOAD \<and> fieldPresent (workload reviewsNode)"
proof -
  have g: "getNodeParamsFromProps (bookinfoProps\<lparr>params := reviewsParams\<rparr>) = Some reviewsNode"
    by (simp add: getNodeParamsFromProps_def bookinfoProps_def reviewsParams_def reviewsNode_def
        truthy_def UNKNOWN_def)
  have k: "nodeType reviewsNode = WORKLOAD" by (simp add: reviewsNode_def)
  from getNodeParamsFromProps_populated [OF g] k have "fieldPresent (workload reviewsNode)"
    by simp
  with g k show ?thesis by simp
qed

text \<open>
  The claim as first stated asks a SERVICE node to carry its service. The path
  \<^verbatim>\<open>namespaces/bookinfo/applications/unknown\<close> gives a SERVICE node with no service.
\<close>

theorem service_node_counterexample:
  "getNodeParamsFromProps (bookinfoProps\<lparr>params := unknownAppParams\<rparr>) =
     Some \<lparr>app = Some ''unknown'', namespace = \<lparr>name = Some ''bookinfo''\<rparr>, nodeType = SERVICE,
           service = None, version = Some '''', workload = None\<rparr> \<and>
   \<not> populated \<lparr>app = Some ''unknown'', namespace = \<lparr>name = Some ''bookinfo''\<rparr>,
                 nodeType = SERVICE, service = None, version = Some '''', workload = None\<rparr>"
  by (simp add: getNodeParamsFromProps_def bookinfoProps_def unknownAppParams_def truthy_def
      UNKNOWN_def populated_def fieldPresent_def)

section \<open>Fetch requests\<close>

text \<open>
  C7. A fetch request is scoped to the namespace of the focused node alone when a node is
  focused, whatever the active namespaces are, and to the active namespaces when none is;
  every fetch of an update or of the mount is built this way. In the scenario of the
  spec, focusing the reviews workload of bookinfo triggers a fetch whose scope is the
  single namespace bookinfo, for a node of type WORKLOAD with workload reviews.
\<close>

theorem fetch_scope:
  "fetchNamespaces (loadGraphDataFromBackend h props) =
     (case node props of
        Some r \<Rightarrow> [namespace (objects h r)]
      | None \<Rightarrow> activeNamespaces props) \<and>
   fetchNode (loadGraphDataFromBackend h props) = node props \<and>
   fetchesOf (trace (snd (componentDidUpdate this prev cur w))) =
     fetchesOf (trace w) @
     (if shouldRefetch (heapOf w) prev cur then [loadGraphDataFromBackend (heapOf w) cur] else []) \<and>
   fetchesOf (trace (componentDidMount props w)) =
     fetchesOf (trace w) @
     (if graphNode w = None then [loadGraphDataFromBackend (heapOf w) props] else []) \<and>
   shouldRefetch focusedHeap focusProps (focusProps\<lparr>node := Some 0\<rparr>) \<and>
   fetchesOf (trace (snd (componentDidUpdate \<lparr>focusSelector = None\<rparr> focusProps
      (focusProps\<lparr>node := Some 0\<rparr>) (snd (constructor focusProps None freshWorld))))) =
     [loadGraphDataFromBackend focusedHeap (focusProps\<lparr>node := Some 0\<rparr>)] \<and>
   fetchNamespaces (loadGraphDataFromBackend focusedHeap (focusProps\<lparr>node := Some 0\<rparr>)) =
     [\<lparr>name = Some ''bookinfo''\<rparr>] \<and>
   fetchNode (loadGraphDataFromBackend focusedHeap (focusProps\<lparr>node := Some 0\<rparr>)) = Some 0 \<and>
   nodeType (objects focusedHeap 0) = WORKLOAD \<and>
   workload (objects focusedHeap 0) = Some ''reviews''"
proof -
  have a: "fetchNamespaces (loadGraphDataFromBackend h props) =
     (case node props of
        Some r \<Rightarrow> [namespace (objects h r)]
      | None \<Rightarrow> activeNamespaces props)"
    by (simp add: loadGraphDataFromBackend_def)
  have b: "fetchNode (loadGraphDataFromBackend h props) = node props"
    by (simp add: loadGraphDataFromBackend_def)
  from a b componentDidUpdate_fetches [of this prev cur w] componentDidMount_fetches [of props w]
    focus_scenario
  show ?thesis by blast
qed

theorem fetch_scope_witness:
  "fetchNamespaces (loadGraphDataFromBackend threeNodesHeap (bookinfoProps\<lparr>node := Some 1\<rparr>)) =
     [\<lparr>name = Some ''default''\<rparr>] \<and>
   fetchNamespaces (loadGraphDataFromBackend threeNodesHeap bookinfoProps) =
     [\<lparr>name = Some ''bookinfo''\<rparr>]"
  using fetch_scope [of threeNodesHeap "bookinfoProps\<lparr>node := Some 1\<rparr>"]
    fetch_scope [of threeNodesHeap bookinfoProps]
  by (simp add: threeNodesHeap_def reviewsNode_def bookinfoProps_def)

section \<open>Bootstrap\<close>

text \<open>
  C9, as amended. The constructor submits no fetch. When the node of the URL differs
  (per \<open>isNodeChanged\<close>) from the stored node, it replaces the stored node by the node of
  the URL. The mount then fetches iff no focused node is stored after that, which is the
  case iff the URL names no node. When the URL names a node that differs from the stored
  one, the fetch is left to the update that observes the new node, and that update does
  fetch.
\<close>

theorem bootstrap_fetch:
  assumes stored: "node props = graphNode w"
    and url: "newNode (getNodeParamsFromProps props) (heapOf w) = (h', urlNode)"
    and built: "w' = snd (constructor props fs w)"
  shows "fetchesOf (trace w') = fetchesOf (trace w) \<and>
         graphNode w' = (if isNodeChanged h' urlNode (node props) then urlNode else graphNode w) \<and>
         fetchesOf (trace (componentDidMount props w')) =
           fetchesOf (trace w) @
           (if getNodeParamsFromProps props = None then [loadGraphDataFromBackend h' props] else []) \<and>
         (graphNode w' = None) = (getNodeParamsFromProps props = None) \<and>
         (isNodeChanged h' urlNode (node props) \<longrightarrow>
            shouldRefetch h' props (props\<lparr>node := urlNode\<rparr>))"
proof -
  have w': "w' = (if isNodeChanged h' urlNode (node props) then setNode urlNode (w\<lparr>heapOf := h'\<rparr>)
                  else w\<lparr>heapOf := h'\<rparr>)"
    using constructor_world [OF url] built by simp
  have f: "fetchesOf (trace w') = fetchesOf (trace w)"
    by (simp add: w' fetchesOf_setNode)
  have g: "graphNode w' = (if isNodeChanged h' urlNode (node props) then urlNode else graphNode w)"
    by (simp add: w' graphNode_setNode)
  have h: "heapOf w' = h'"
    by (simp add: w' heapOf_setNode)
  have n: "(graphNode w' = None) = (getNodeParamsFromProps props = None)"
  proof (cases "isNodeChanged h' urlNode (node props)")
    case True
    then show ?thesis using g newNode_None [OF url] by simp
  next
    case False
    then have "(urlNode = None) = (node props = None)"
      by (cases urlNode; cases "node props") (auto simp: isNodeChanged_def)
    then show ?thesis using False g newNode_None [OF url] stored by simp
  qed
  have m: "fetchesOf (trace (componentDidMount props w')) =
           fetchesOf (trace w) @
           (if getNodeParamsFromProps props = None then [loadGraphDataFromBackend h' props] else [])"
    by (simp add: componentDidMount_fetches f h n)
  have u: "isNodeChanged h' urlNode (node props) \<longrightarrow> shouldRefetch h' props (props\<lparr>node := urlNode\<rparr>)"
    by (simp add: shouldRefetch_iff isNodeChanged_sym [of h' urlNode])
  from f g m n u show ?thesis by blast
qed

theorem bootstrap_fetch_witness:
  "node focusProps = graphNode freshWorld \<and>
   graphNode (snd (constructor focusProps None freshWorld)) = Some 0 \<and>
   fetchesOf (trace (componentDidMount focusProps (snd (constructor focusProps None freshWorld)))) = [] \<and>
   shouldRefetch \<lparr>objects = (\<lambda>r. reviewsNode), nextRef = 1\<rparr> focusProps (focusProps\<lparr>node := Some 0\<rparr>)"
proof -
  have s: "node focusProps = graphNode freshWorld"
    by (simp add: focusProps_def bookinfoProps_def freshWorld_def)
  have c: "isNodeChanged \<lparr>objects = (\<lambda>r. reviewsNode), nextRef = 1\<rparr> (Some 0) (node focusProps)"
    by (simp add: isNodeChanged_def focusProps_def bookinfoProps_def)
  have t: "fetchesOf (trace freshWorld) = []"
    by (simp add: freshWorld_def)
  have g: "getNodeParamsFromProps focusProps \<noteq> None"
    using newNode_None [OF newNode_focus] by simp
  note b = bootstrap_fetch [OF s newNode_focus refl, of None]
  from b c t g s show ?thesis by simp
qed

text \<open>
  The claim as first stated defers the first fetch whenever the node of the URL differs
  from the stored one. With a stored node and a URL that names none, the two differ, the
  constructor clears the stored node, and the mount fetches at once, with the properties
  it was constructed with, which still hold the stored node.
\<close>

theorem bootstrap_counterexample:
  "getNodeParamsFromProps staleProps = None \<and>
   node staleProps = graphNode staleWorld \<and>
   isNodeChanged (heapOf staleWorld) None (node staleProps) \<and>
   trace (componentDidMount staleProps (snd (constructor staleProps None staleWorld))) =
     [SetNode None, FetchGraphData (loadGraphDataFromBackend (heapOf staleWorld) staleProps)] \<and>
   fetchNode (loadGraphDataFromBackend (heapOf staleWorld) staleProps) = Some 0"
proof -
  have g: "getNodeParamsFromProps staleProps = None"
    by (simp add: getNodeParamsFromProps_def truthy_def staleProps_def bookinfoProps_def
        noParams_def)
  have s: "node staleProps = graphNode staleWorld"
    by (simp add: staleProps_def staleWorld_def)
  have c: "isNodeChanged (heapOf staleWorld) None (node staleProps)"
    by (simp add: isNodeChanged_def staleProps_def)
  have w: "snd (constructor staleProps None staleWorld) =
             staleWorld\<lparr>graphNode := None, trace := [SetNode None]\<rparr>"
    using c by (simp add: constructor_def g newNode_def setNode_def emit_def staleWorld_def)
  have m: "trace (componentDidMount staleProps (staleWorld\<lparr>graphNode := None, trace := [SetNode None]\<rparr>)) =
     [SetNode None, FetchGraphData (loadGraphDataFromBackend (heapOf staleWorld) staleProps)]"
    by (simp add: componentDidMount_def fetchGraphData_def emit_def)
  have n: "fetchNode (loadGraphDataFromBackend (heapOf staleWorld) staleProps) = Some 0"
    by (simp add: loadGraphDataFromBackend_def staleProps_def)
  from g s c w m n show ?thesis by simp
qed

end
